theory Spec2Isabelle
  imports Main "HOL-Library.Word"
begin

unbundle bit_operations_syntax

section \<open>Identifiers, contacts and network results\<close>

text \<open>
  Node identifiers, keys and session identifiers are 256-bit values (\<open>Size256 = 256 / 8\<close>
  bytes). The distance between two identifiers is their XOR, compared as an unsigned number.
\<close>

type_synonym ID = "256 word"
type_synonym Key = "256 word"
type_synonym SessionID = "256 word"

text \<open>Go's \<open>error\<close> interface value; \<open>None\<close> is \<open>nil\<close>.\<close>

type_synonym error = string

record UDPAddr =
  IP :: "8 word list"
  Port :: int

record Contact =
  NodeID :: ID
  Address :: UDPAddr

definition distance :: "ID \<Rightarrow> ID \<Rightarrow> ID" where
  "distance a b = a XOR b"

text \<open>
  \<open>network.Result\<close> is an interface with the two implementations of the network package;
  a \<open>nil\<close> result (a timed-out call) is \<open>None\<close> of \<open>Result option\<close>.
\<close>

datatype Result =
    FindNodesResult Contact "Contact list"
  | FindValueResult Contact SessionID "Contact list" Key string

fun From :: "Result \<Rightarrow> Contact" where
  "From (FindNodesResult from closest) = from"
| "From (FindValueResult from sid closest key val) = from"

fun Closest :: "Result \<Rightarrow> Contact list" where
  "Closest (FindNodesResult from closest) = closest"
| "Closest (FindValueResult from sid closest key val) = closest"

fun Value :: "Result \<Rightarrow> string" where
  "Value (FindNodesResult from closest) = ''''"
| "Value (FindValueResult from sid closest key val) = val"

text \<open>The constants of \<open>dht.go\<close>: the degree of parallelism and the bucket size.\<close>

definition alpha :: nat where
  "alpha = 3"

definition bucket_size :: nat where
  "bucket_size = 20"

section \<open>Routing table and shortlist\<close>

text \<open>
  Modelled from the spec: the package \<open>route\<close> (\<open>Table\<close>, \<open>Shortlist\<close>) is not among
  the sources. The table is an array of buckets indexed by the number of leading bits a
  contact shares with the local identifier, each bucket ordered from least to most recently
  seen and holding at most \<open>bucket_size\<close> contacts.
\<close>

record Table =
  rt_me :: Contact
  rt_buckets :: "nat \<Rightarrow> Contact list"

fun bit_length :: "nat \<Rightarrow> nat" where
  "bit_length n = (if n = 0 then 0 else Suc (bit_length (n div 2)))"

declare bit_length.simps [simp del]

definition bucket_index :: "ID \<Rightarrow> ID \<Rightarrow> nat" where
  "bucket_index me other = 256 - bit_length (unat (distance me other))"

text \<open>
  Modelled from the spec: \<open>Add\<close> ignores the local node, moves a known contact to the tail
  of its bucket, appends a new one while the bucket has room, and drops it when the bucket
  is full (no liveness ping is wired: \<open>Add\<close> gets no network).
\<close>

definition rt_Add :: "Contact \<Rightarrow> Table \<Rightarrow> Table" where
  "rt_Add c rt =
     (if NodeID c = NodeID (rt_me rt) then rt
      else let i = bucket_index (NodeID (rt_me rt)) (NodeID c);
               b = rt_buckets rt i
           in if NodeID c \<in> NodeID ` set b
              then rt\<lparr>rt_buckets := (rt_buckets rt)
                     (i := filter (\<lambda>x. NodeID x \<noteq> NodeID c) b @ filter (\<lambda>x. NodeID x = NodeID c) b)\<rparr>
              else if length b < bucket_size
              then rt\<lparr>rt_buckets := (rt_buckets rt)(i := b @ [c])\<rparr>
              else rt)"

definition rt_contacts :: "Table \<Rightarrow> Contact list" where
  "rt_contacts rt = concat (map (rt_buckets rt) [0..<256])"

text \<open>
  Modelled from the spec: a shortlist is the working set of a lookup, at most
  \<open>bucket_size\<close> contacts sorted by ascending distance to a fixed target.
\<close>

record Shortlist =
  sl_target :: ID
  sl_entries :: "Contact list"

definition by_distance :: "ID \<Rightarrow> Contact list \<Rightarrow> Contact list" where
  "by_distance target cs = sort_key (\<lambda>c. distance (NodeID c) target) cs"

definition NClosest :: "Table \<Rightarrow> ID \<Rightarrow> nat \<Rightarrow> Shortlist" where
  "NClosest rt target n =
     \<lparr>sl_target = target, sl_entries = take n (by_distance target (rt_contacts rt))\<rparr>"

fun union_by_id :: "Contact list \<Rightarrow> Contact list \<Rightarrow> Contact list" where
  "union_by_id xs [] = xs"
| "union_by_id xs (c # cs) =
     union_by_id (if NodeID c \<in> NodeID ` set xs then xs else xs @ [c]) cs"

definition sl_Add :: "Contact list \<Rightarrow> Shortlist \<Rightarrow> Shortlist" where
  "sl_Add cs sl =
     sl\<lparr>sl_entries :=
          take bucket_size (by_distance (sl_target sl) (union_by_id (sl_entries sl) cs))\<rparr>"

definition sl_Remove :: "Contact \<Rightarrow> Shortlist \<Rightarrow> Shortlist" where
  "sl_Remove c sl = sl\<lparr>sl_entries := filter (\<lambda>x. NodeID x \<noteq> NodeID c) (sl_entries sl)\<rparr>"

definition SortedContacts :: "Shortlist \<Rightarrow> Contact list" where
  "SortedContacts sl = by_distance (sl_target sl) (sl_entries sl)"

section \<open>Calls and the network\<close>

text \<open>
  Modelled from the spec: the \<open>Call\<close> capability (\<open>Target\<close>, \<open>Do\<close>, \<open>Result\<close>) and its
  two implementations are not among the sources. A FIND\_NODES call never asks to stop; a
  FIND\_VALUE call keeps the value of the first response that carries one and asks to stop.
\<close>

datatype Call = FindNodesCall ID | FindValueCall Key string

definition NewFindNodesCall :: "ID \<Rightarrow> Call" where
  "NewFindNodesCall target = FindNodesCall target"

definition NewFindValueCall :: "Key \<Rightarrow> Call" where
  "NewFindValueCall hash = FindValueCall hash ''''"

fun Target :: "Call \<Rightarrow> ID" where
  "Target (FindNodesCall target) = target"
| "Target (FindValueCall hash val) = hash"

fun call_value :: "Call \<Rightarrow> string" where
  "call_value (FindNodesCall target) = ''''"
| "call_value (FindValueCall hash val) = val"

fun call_Result :: "Call \<Rightarrow> Result \<Rightarrow> bool \<times> Call" where
  "call_Result (FindNodesCall target) r = (False, FindNodesCall target)"
| "call_Result (FindValueCall hash val) r =
     (if Value r \<noteq> '''' then (True, FindValueCall hash (Value r))
      else (False, FindValueCall hash val))"

text \<open>
  The network is an external collaborator. Its behaviour during one execution is given by
  oracles indexed by the number of the outbound call (calls are numbered in the order in
  which the node issues them): whether the call returns without error, what its completion
  channel delivers (\<open>None\<close> is the \<open>nil\<close> result of a timed-out call), and the rank of that
  delivery among the completions awaited together. Every channel is taken to deliver.
\<close>

record Network =
  FindNodes :: "nat \<Rightarrow> ID \<Rightarrow> UDPAddr \<Rightarrow> bool"
  FindValue :: "nat \<Rightarrow> Key \<Rightarrow> UDPAddr \<Rightarrow> bool"
  Store :: "nat \<Rightarrow> Key \<Rightarrow> string \<Rightarrow> UDPAddr \<Rightarrow> bool"
  SendNodes :: "nat \<Rightarrow> Contact list \<Rightarrow> SessionID \<Rightarrow> UDPAddr \<Rightarrow> bool"
  deliver :: "nat \<Rightarrow> Result option"
  arrival :: "nat \<Rightarrow> nat"

fun call_Do :: "Call \<Rightarrow> Network \<Rightarrow> nat \<Rightarrow> UDPAddr \<Rightarrow> bool" where
  "call_Do (FindNodesCall target) nw n addr = FindNodes nw n target addr"
| "call_Do (FindValueCall hash val) nw n addr = FindValue nw n hash addr"

section \<open>The lookup walk\<close>

text \<open>
  The trace of an execution: a \<open>Do\<close> call to a contact and whether it returned without
  error, a completion received from \<open>results\<close>, a STORE call, a reply sent by a request
  handler, and an error written to the log.
\<close>

datatype Event =
    EvDo Contact bool
  | EvRecv Contact "Result option"
  | EvStore Contact bool
  | EvSendNodes "Contact list" SessionID UDPAddr
  | EvLogError

datatype 'a outcome = Panic | Return 'a

text \<open>
  The local variables of \<open>walk\<close>, together with what the walk changes outside itself: the
  routing table, the call object, the number of outbound calls issued and their trace.
\<close>

record wstate =
  w_sl :: Shortlist
  w_sent :: "ID set"
  w_rest :: bool
  w_contacts :: "Contact list"
  w_closest :: Contact
  w_rt :: Table
  w_call :: Call
  w_calls :: nat
  w_trace :: "Event list"

text \<open>
  The dispatch loop (\<open>for i, contact := range contacts\<close>): \<open>await\<close> collects the channel
  (the number of the call) and the callee of every call that was issued without error.
\<close>

fun dispatch ::
  "Network \<Rightarrow> Contact \<Rightarrow> nat \<Rightarrow> Contact list \<Rightarrow> wstate \<times> (nat \<times> Contact) list
     \<Rightarrow> wstate \<times> (nat \<times> Contact) list" where
  "dispatch nw me i [] (s, await) = (s, await)"
| "dispatch nw me i (contact # cs) (s, await) =
     (if i \<ge> alpha \<and> \<not> w_rest s then (s, await)
      else if NodeID contact \<in> w_sent s \<or> NodeID contact = NodeID me
      then dispatch nw me (Suc i) cs (s, await)
      else if call_Do (w_call s) nw (w_calls s) (Address contact)
      then dispatch nw me (Suc i) cs
             (s\<lparr>w_sent := insert (NodeID contact) (w_sent s),
                w_calls := Suc (w_calls s),
                w_trace := w_trace s @ [EvDo contact True]\<rparr>,
              await @ [(w_calls s, contact)])
      else dispatch nw me (Suc i) cs
             (s\<lparr>w_sl := sl_Remove contact (w_sl s),
                w_calls := Suc (w_calls s),
                w_trace := w_trace s @ [EvDo contact False]\<rparr>,
              await))"

text \<open>
  The collection loop (\<open>for i := 0; i < len(await); i++\<close>) over the completions in the
  order in which they arrive on \<open>results\<close>.
\<close>

fun collect :: "Network \<Rightarrow> (nat \<times> Contact) list \<Rightarrow> wstate \<Rightarrow> wstate" where
  "collect nw [] s = s"
| "collect nw ((ch, callee) # later) s =
     (case deliver nw ch of
        Some result \<Rightarrow>
          (let s' = s\<lparr>w_rt := rt_Add callee (w_rt s),
                      w_sl := sl_Add (Closest result) (w_sl s),
                      w_call := snd (call_Result (w_call s) result),
                      w_trace := w_trace s @ [EvRecv callee (Some result)]\<rparr>
           in if fst (call_Result (w_call s) result) then s' else collect nw later s')
      | None \<Rightarrow>
          collect nw later
            (s\<lparr>w_sl := sl_Remove callee (w_sl s),
               w_trace := w_trace s @ [EvRecv callee None]\<rparr>))"

definition arrivals :: "Network \<Rightarrow> (nat \<times> Contact) list \<Rightarrow> (nat \<times> Contact) list" where
  "arrivals nw await = sort_key (\<lambda>ac. arrival nw (fst ac)) await"

definition wave :: "Network \<Rightarrow> Contact \<Rightarrow> wstate \<Rightarrow> wstate" where
  "wave nw me s =
     (let (s1, await) = dispatch nw me 0 (w_contacts s) (s, [])
      in collect nw (arrivals nw await) s1)"

text \<open>
  The outer \<open>for\<close> loop. One unit of fuel is one iteration; \<open>None\<close> is a walk that has not
  returned within the fuel. Indexing the empty slice (\<open>contacts[0]\<close>) panics.
\<close>

fun walk_loop ::
  "nat \<Rightarrow> Network \<Rightarrow> Contact \<Rightarrow> wstate
     \<Rightarrow> (Contact list \<times> error option) outcome option \<times> wstate" where
  "walk_loop 0 nw me s = (None, s)"
| "walk_loop (Suc n) nw me s =
     (let s2 = wave nw me s;
          contacts = SortedContacts (w_sl s2)
      in case contacts of
           [] \<Rightarrow> (Some Panic, s2\<lparr>w_contacts := contacts\<rparr>)
         | first # _ \<Rightarrow>
             if NodeID (w_closest s2) = NodeID first
             then if \<not> w_rest s2
                  then walk_loop n nw me (s2\<lparr>w_contacts := contacts, w_rest := True\<rparr>)
                  else (Some (Return (contacts, None)), s2\<lparr>w_contacts := contacts\<rparr>)
             else walk_loop n nw me (s2\<lparr>w_contacts := contacts, w_closest := first\<rparr>))"

text \<open>
  Modelled from the spec: the package \<open>store\<close> is not among the sources. \<open>AddItem\<close>
  derives the key from the value with the hash function and inserts or refreshes the entry;
  the timestamps of an entry are left out.
\<close>

record Item =
  item_value :: string
  item_origin :: ID

type_synonym Database = "Key \<rightharpoonup> Item"

definition AddItem :: "(string \<Rightarrow> Key) \<Rightarrow> string \<Rightarrow> ID \<Rightarrow> Database \<Rightarrow> Database" where
  "AddItem H val origin db = db(H val \<mapsto> \<lparr>item_value = val, item_origin = origin\<rparr>)"

record DHT =
  dht_rt :: Table
  dht_me :: Contact
  dht_db :: Database

text \<open>What an operation leaves behind: routing table, call object, calls issued, trace.\<close>

record effects =
  e_rt :: Table
  e_call :: Call
  e_calls :: nat
  e_trace :: "Event list"

definition effects_of :: "wstate \<Rightarrow> effects" where
  "effects_of s = \<lparr>e_rt = w_rt s, e_call = w_call s, e_calls = w_calls s, e_trace = w_trace s\<rparr>"

text \<open>
  The lines of \<open>walk\<close> before the loop: the shortlist is seeded with the \<open>alpha\<close>
  closest contacts of the routing table, and \<open>closest := contacts[0]\<close> panics when the
  seed is empty.
\<close>

definition walk_init :: "DHT \<Rightarrow> Call \<Rightarrow> wstate outcome" where
  "walk_init dht call =
     (let sl = NClosest (dht_rt dht) (Target call) alpha;
          contacts = SortedContacts sl
      in case contacts of
           [] \<Rightarrow> Panic
         | closest # _ \<Rightarrow>
             Return \<lparr>w_sl = sl, w_sent = {}, w_rest = False, w_contacts = contacts,
                     w_closest = closest, w_rt = dht_rt dht, w_call = call,
                     w_calls = 0, w_trace = []\<rparr>)"

definition walk ::
  "nat \<Rightarrow> Network \<Rightarrow> DHT \<Rightarrow> Call
     \<Rightarrow> (Contact list \<times> error option) outcome option \<times> effects" where
  "walk fuel nw dht call =
     (case walk_init dht call of
        Panic \<Rightarrow> (Some Panic, \<lparr>e_rt = dht_rt dht, e_call = call, e_calls = 0, e_trace = []\<rparr>)
      | Return s \<Rightarrow>
          (let (r, s') = walk_loop fuel nw (dht_me dht) s in (r, effects_of s')))"

section \<open>Entry points\<close>

definition iterativeFindNodes ::
  "nat \<Rightarrow> Network \<Rightarrow> DHT \<Rightarrow> ID
     \<Rightarrow> (Contact list \<times> error option) outcome option \<times> effects" where
  "iterativeFindNodes fuel nw dht target = walk fuel nw dht (NewFindNodesCall target)"

text \<open>The STORE loop of \<open>iterativeStore\<close>; a failure is logged and the loop goes on.\<close>

fun store_all ::
  "Network \<Rightarrow> Key \<Rightarrow> string \<Rightarrow> Contact list \<Rightarrow> effects \<times> Contact list
     \<Rightarrow> effects \<times> Contact list" where
  "store_all nw hash val [] (e, stored) = (e, stored)"
| "store_all nw hash val (contact # cs) (e, stored) =
     (if Store nw (e_calls e) hash val (Address contact)
      then store_all nw hash val cs
             (e\<lparr>e_calls := Suc (e_calls e),
                e_trace := e_trace e @ [EvStore contact True]\<rparr>,
              stored @ [contact])
      else store_all nw hash val cs
             (e\<lparr>e_calls := Suc (e_calls e),
                e_trace := e_trace e @ [EvStore contact False, EvLogError]\<rparr>,
              stored))"

text \<open>
  The hash function (\<open>blake2b.Sum256\<close>, an external library) is the parameter \<open>H\<close>.
\<close>

definition iterativeStore ::
  "(string \<Rightarrow> Key) \<Rightarrow> nat \<Rightarrow> Network \<Rightarrow> DHT \<Rightarrow> string
     \<Rightarrow> (Key \<times> error option) outcome option \<times> effects" where
  "iterativeStore H fuel nw dht val =
     (let hash = H val
      in case iterativeFindNodes fuel nw dht hash of
           (None, e) \<Rightarrow> (None, e)
         | (Some Panic, e) \<Rightarrow> (Some Panic, e)
         | (Some (Return (contacts, err)), e) \<Rightarrow>
             if err \<noteq> None then (Some (Return (hash, err)), e)
             else (Some (Return (hash, err)), fst (store_all nw hash val contacts (e, []))))"

definition iterativeFindValue ::
  "nat \<Rightarrow> Network \<Rightarrow> DHT \<Rightarrow> Key \<Rightarrow> (string \<times> error option) outcome option \<times> effects" where
  "iterativeFindValue fuel nw dht hash =
     (case walk fuel nw dht (NewFindValueCall hash) of
        (None, e) \<Rightarrow> (None, e)
      | (Some Panic, e) \<Rightarrow> (Some Panic, e)
      | (Some (Return (contacts, err)), e) \<Rightarrow>
          (Some (Return (if err = None then call_value (e_call e) else '''', err)), e))"

definition Get ::
  "nat \<Rightarrow> Network \<Rightarrow> DHT \<Rightarrow> Key \<Rightarrow> (string \<times> error option) outcome option \<times> effects" where
  "Get fuel nw dht hash = iterativeFindValue fuel nw dht hash"

definition Put ::
  "(string \<Rightarrow> Key) \<Rightarrow> nat \<Rightarrow> Network \<Rightarrow> DHT \<Rightarrow> string
     \<Rightarrow> (Key \<times> error option) outcome option \<times> effects" where
  "Put H fuel nw dht val = iterativeStore H fuel nw dht val"

definition Join ::
  "nat \<Rightarrow> Network \<Rightarrow> DHT \<Rightarrow> Contact \<Rightarrow> error option outcome option \<times> effects" where
  "Join fuel nw dht me =
     (case iterativeFindNodes fuel nw dht (NodeID me) of
        (None, e) \<Rightarrow> (None, e)
      | (Some Panic, e) \<Rightarrow> (Some Panic, e)
      | (Some (Return (contacts, err)), e) \<Rightarrow> (Some (Return err), e))"

section \<open>Request handlers\<close>

record FindNodesRequest =
  fn_From :: Contact
  fn_Target :: ID
  fn_SessionID :: SessionID

record StoreRequest =
  st_From :: Contact
  st_Value :: string

record hstate =
  h_dht :: DHT
  h_calls :: nat
  h_trace :: "Event list"

text \<open>
  The handlers loop forever over the requests their channel delivers; the model runs them
  over the list of requests delivered so far.
\<close>

fun findNodesRequestHandler :: "Network \<Rightarrow> FindNodesRequest list \<Rightarrow> hstate \<Rightarrow> hstate" where
  "findNodesRequestHandler nw [] h = h"
| "findNodesRequestHandler nw (request # requests) h =
     (let rt = rt_Add (fn_From request) (dht_rt (h_dht h));
          closest = SortedContacts (NClosest rt (fn_Target request) bucket_size);
          ok = SendNodes nw (h_calls h) closest (fn_SessionID request)
                 (Address (fn_From request))
      in findNodesRequestHandler nw requests
           (h\<lparr>h_dht := (h_dht h)\<lparr>dht_rt := rt\<rparr>,
              h_calls := Suc (h_calls h),
              h_trace := h_trace h
                @ EvSendNodes closest (fn_SessionID request) (Address (fn_From request))
                # (if ok then [] else [EvLogError])\<rparr>))"

fun storeRequestHandler :: "(string \<Rightarrow> Key) \<Rightarrow> StoreRequest list \<Rightarrow> hstate \<Rightarrow> hstate" where
  "storeRequestHandler H [] h = h"
| "storeRequestHandler H (request # requests) h =
     (let rt = rt_Add (st_From request) (dht_rt (h_dht h));
          db = AddItem H (st_Value request) (NodeID (st_From request)) (dht_db (h_dht h))
      in storeRequestHandler H requests (h\<lparr>h_dht := (h_dht h)\<lparr>dht_rt := rt, dht_db := db\<rparr>\<rparr>))"

section \<open>Concrete nodes and networks\<close>

text \<open>
  A contact with a small identifier, a routing table built by adding contacts to the empty
  table of a node, and networks given by what the completion channels deliver.
\<close>

definition peer :: "nat \<Rightarrow> Contact" where
  "peer n = \<lparr>NodeID = of_nat n, Address = \<lparr>IP = [10, 0, 0, of_nat n], Port = 8118\<rparr>\<rparr>"

definition table_of :: "Contact \<Rightarrow> Contact list \<Rightarrow> Table" where
  "table_of me cs = fold rt_Add cs \<lparr>rt_me = me, rt_buckets = (\<lambda>i. [])\<rparr>"

definition node_of :: "Contact \<Rightarrow> Contact list \<Rightarrow> DHT" where
  "node_of me cs = \<lparr>dht_rt = table_of me cs, dht_me = me, dht_db = Map.empty\<rparr>"

text \<open>Every call is issued without error and every call times out.\<close>

definition silent :: Network where
  "silent = \<lparr>FindNodes = (\<lambda>n t a. True), FindValue = (\<lambda>n h a. True),
     Store = (\<lambda>n h v a. True), SendNodes = (\<lambda>n cs sid a. True),
     deliver = (\<lambda>n. None), arrival = (\<lambda>n. n)\<rparr>"

definition answering :: "(nat \<Rightarrow> Result option) \<Rightarrow> Network" where
  "answering d = silent\<lparr>deliver := d\<rparr>"

section \<open>The error result of the walk\<close>

lemma walk_loop_error_nil:
  "fst (walk_loop fuel nw me s) = Some (Return (cs, err)) \<Longrightarrow> err = None"
proof (induction fuel arbitrary: s)
  case 0
  then show ?case by simp
next
  case (Suc n)
  then show ?case
    by (simp add: Let_def split: list.splits if_splits)
qed

lemma walk_error_nil:
  "fst (walk fuel nw dht call) = Some (Return (cs, err)) \<Longrightarrow> err = None"
proof -
  assume a: "fst (walk fuel nw dht call) = Some (Return (cs, err))"
  show "err = None"
  proof (cases "walk_init dht call")
    case Panic
    with a show ?thesis by (simp add: walk_def)
  next
    case (Return s)
    with a have "fst (walk_loop fuel nw (dht_me dht) s) = Some (Return (cs, err))"
      by (simp add: walk_def split: prod.splits)
    then show ?thesis by (rule walk_loop_error_nil)
  qed
qed

text \<open>
  C9: every execution of \<open>walk\<close> that returns, returns a \<open>nil\<close> error, and so do
  \<open>iterativeFindNodes\<close>, \<open>Join\<close> and \<open>Get\<close>: no error of the walk surfaces through them.
\<close>

theorem entry_points_nil_error:
  "(fst (walk fuel nw dht call) = Some (Return (cs, err)) \<longrightarrow> err = None) \<and>
   (fst (iterativeFindNodes fuel nw dht target) = Some (Return (cs, err)) \<longrightarrow> err = None) \<and>
   (fst (Join fuel nw dht me) = Some (Return err) \<longrightarrow> err = None) \<and>
   (fst (Get fuel nw dht hash) = Some (Return (v, err)) \<longrightarrow> err = None)"
proof (intro conjI impI)
  assume "fst (walk fuel nw dht call) = Some (Return (cs, err))"
  then show "err = None" by (rule walk_error_nil)
next
  assume "fst (iterativeFindNodes fuel nw dht target) = Some (Return (cs, err))"
  then show "err = None" unfolding iterativeFindNodes_def by (rule walk_error_nil)
next
  assume a: "fst (Join fuel nw dht me) = Some (Return err)"
  obtain r e where w: "walk fuel nw dht (NewFindNodesCall (NodeID me)) = (r, e)"
    by (cases "walk fuel nw dht (NewFindNodesCall (NodeID me))")
  from a w obtain contacts where "r = Some (Return (contacts, err))"
    by (auto simp: Join_def iterativeFindNodes_def split: option.splits outcome.splits)
  with w have "fst (walk fuel nw dht (NewFindNodesCall (NodeID me))) = Some (Return (contacts, err))"
    by simp
  then show "err = None" by (rule walk_error_nil)
next
  assume a: "fst (Get fuel nw dht hash) = Some (Return (v, err))"
  obtain r e where w: "walk fuel nw dht (NewFindValueCall hash) = (r, e)"
    by (cases "walk fuel nw dht (NewFindValueCall hash)")
  from a w obtain contacts where "r = Some (Return (contacts, err))"
    by (auto simp: Get_def iterativeFindValue_def split: option.splits outcome.splits)
  with w have "fst (walk fuel nw dht (NewFindValueCall hash)) = Some (Return (contacts, err))"
    by simp
  then show "err = None" by (rule walk_error_nil)
qed

theorem entry_points_nil_error_witness:
  "fst (Join 2 (answering (\<lambda>n. Some (FindNodesResult (peer 2) [])))
          (node_of (peer 1) [peer 2]) (peer 1)) = Some (Return None)"
proof -
  have h: "fst (Join 2 (answering (\<lambda>n. Some (FindNodesResult (peer 2) [])))
              (node_of (peer 1) [peer 2]) (peer 1)) = Some (Return None)"
    by code_simp
  from entry_points_nil_error [THEN conjunct2, THEN conjunct2, THEN conjunct1, rule_format, OF h]
  show ?thesis using h by simp
qed

section \<open>A walk seeded from an empty routing table\<close>

lemma concat_map_Nil: "concat (map (\<lambda>i. []) xs) = []"
  by (induction xs) simp_all

text \<open>
  C2: on a node whose routing table holds no contact the seed shortlist is empty, and
  \<open>walk\<close> panics on \<open>contacts[0]\<close> before any call is issued; it does not return an empty
  slice.
\<close>

theorem walk_empty_table_panics:
  "walk fuel nw (node_of (peer 1) []) call =
     (Some Panic, \<lparr>e_rt = table_of (peer 1) [], e_call = call, e_calls = 0, e_trace = []\<rparr>)"
  by (simp add: walk_def walk_init_def node_of_def table_of_def NClosest_def
        SortedContacts_def by_distance_def rt_contacts_def concat_map_Nil)

end
